theory Spec2Isabelle
  imports Main "HOL-Library.Word"
begin

section \<open>The directory storage driver and the USB handler registry of LXD\<close>

text \<open>
  Two source files are embedded: \<^verbatim>\<open>lxd/storage/drivers/driver_dir.go\<close> (the methods of
  \<^verbatim>\<open>dir\<close>) and \<^verbatim>\<open>lxd/device/device_utils_usb.go\<close> (the USB handler registry and
  \<^verbatim>\<open>USBIsOurDevice\<close>).

  Go values are modelled as follows. A \<^verbatim>\<open>string\<close> is a \<^typ>\<open>string\<close> (a list of
  bytes). A \<^verbatim>\<open>map[string]string\<close> is a partial map; reading a key that is absent
  gives the empty string, as Go's zero value does. An \<^verbatim>\<open>error\<close> is a value carrying
  its message, and a result of type \<^verbatim>\<open>error\<close> is an \<open>error option\<close> where
  \<^term>\<open>None\<close> stands for \<^verbatim>\<open>nil\<close>.
  The configuration map of a pool is taken to be allocated: an assignment to a \<^verbatim>\<open>nil\<close>
  map, which panics in Go, is not part of the model.
\<close>

subsection \<open>Go strings, maps and errors\<close>

datatype error = Error (message: string)

type_synonym gomap = "string \<rightharpoonup> string"

text \<open>The Go expression \<^verbatim>\<open>m[k]\<close> on a \<^verbatim>\<open>map[string]string\<close>.\<close>

definition index :: "gomap \<Rightarrow> string \<Rightarrow> string" where
  "index m k = (case m k of None \<Rightarrow> [] | Some v \<Rightarrow> v)"

text \<open>
  \<^verbatim>\<open>strings.HasPrefix(s, prefix)\<close>, which is
  \<^verbatim>\<open>len(s) >= len(prefix) && s[:len(prefix)] == prefix\<close>.
\<close>

definition HasPrefix :: "string \<Rightarrow> string \<Rightarrow> bool" where
  "HasPrefix s pre = (length s \<ge> length pre \<and> take (length pre) s = pre)"

subsection \<open>The host: helpers of the driver that live outside the two files\<close>

text \<open>
  \<^verbatim>\<open>driver_dir.go\<close> calls helpers that are defined elsewhere: \<^verbatim>\<open>GetPoolMountPath\<close>,
  \<^verbatim>\<open>wipeDirectory\<close>, \<^verbatim>\<open>sameMount\<close>, \<^verbatim>\<open>TryMount\<close> and \<^verbatim>\<open>forceUnmount\<close> of the same
  package, \<^verbatim>\<open>shared.PathExists\<close>, \<^verbatim>\<open>shared.PathIsEmpty\<close> and \<^verbatim>\<open>shared.VarPath\<close>, and
  \<^verbatim>\<open>filepath.Clean\<close> of the Go library. They are parameters of the model, collected
  in a record \<open>host\<close>. The helpers that look at or change the file system and the mount
  table take the state \<open>'w\<close> of the operating system, and those that change it return
  the new one. Nothing is assumed about any of them.
\<close>

record 'w host =
  VarPath :: string
  GetPoolMountPath :: "string \<Rightarrow> string"
  Clean :: "string \<Rightarrow> string"
  PathExists :: "'w \<Rightarrow> string \<Rightarrow> bool"
  PathIsEmpty :: "'w \<Rightarrow> string \<Rightarrow> error + bool"
  wipeDirectory :: "'w \<Rightarrow> string \<Rightarrow> error option \<times> 'w"
  sameMount :: "'w \<Rightarrow> string \<Rightarrow> string \<Rightarrow> bool"
  TryMount :: "'w \<Rightarrow> string \<Rightarrow> string \<Rightarrow> string \<Rightarrow> 64 word \<Rightarrow> string \<Rightarrow> error option \<times> 'w"
  forceUnmount :: "'w \<Rightarrow> string \<Rightarrow> (bool \<times> error option) \<times> 'w"

text \<open>\<^verbatim>\<open>unix.MS_BIND\<close>, the Linux mount flag of a bind mount.\<close>

definition MS_BIND :: "64 word" where
  "MS_BIND = 0x1000"

text \<open>
  What a method does to the operating system is its effect on the state \<open>'w\<close> together
  with the list of the helper calls it made, in the order it made them. The list is what
  lets a theorem say that a helper was not called, or was called before another.
\<close>

datatype os_call =
    CallPathExists string
  | CallPathIsEmpty string
  | CallWipeDirectory string
  | CallSameMount string string
  | CallTryMount string string string "64 word" string
  | CallForceUnmount string

record 'w os =
  world :: 'w
  calls :: "os_call list"

definition os_PathExists :: "'w host \<Rightarrow> string \<Rightarrow> 'w os \<Rightarrow> bool \<times> 'w os" where
  "os_PathExists h p s =
     (PathExists h (world s) p, s\<lparr>calls := calls s @ [CallPathExists p]\<rparr>)"

definition os_PathIsEmpty :: "'w host \<Rightarrow> string \<Rightarrow> 'w os \<Rightarrow> (error + bool) \<times> 'w os" where
  "os_PathIsEmpty h p s =
     (PathIsEmpty h (world s) p, s\<lparr>calls := calls s @ [CallPathIsEmpty p]\<rparr>)"

definition os_wipeDirectory :: "'w host \<Rightarrow> string \<Rightarrow> 'w os \<Rightarrow> error option \<times> 'w os" where
  "os_wipeDirectory h p s =
     (case wipeDirectory h (world s) p of
        (err, w) \<Rightarrow> (err, \<lparr>world = w, calls = calls s @ [CallWipeDirectory p]\<rparr>))"

definition os_sameMount :: "'w host \<Rightarrow> string \<Rightarrow> string \<Rightarrow> 'w os \<Rightarrow> bool \<times> 'w os" where
  "os_sameMount h src dst s =
     (sameMount h (world s) src dst, s\<lparr>calls := calls s @ [CallSameMount src dst]\<rparr>)"

definition os_TryMount ::
  "'w host \<Rightarrow> string \<Rightarrow> string \<Rightarrow> string \<Rightarrow> 64 word \<Rightarrow> string \<Rightarrow> 'w os \<Rightarrow> error option \<times> 'w os" where
  "os_TryMount h src dst fs flags options s =
     (case TryMount h (world s) src dst fs flags options of
        (err, w) \<Rightarrow>
          (err, \<lparr>world = w, calls = calls s @ [CallTryMount src dst fs flags options]\<rparr>))"

definition os_forceUnmount ::
  "'w host \<Rightarrow> string \<Rightarrow> 'w os \<Rightarrow> (bool \<times> error option) \<times> 'w os" where
  "os_forceUnmount h p s =
     (case forceUnmount h (world s) p of
        (r, w) \<Rightarrow> (r, \<lparr>world = w, calls = calls s @ [CallForceUnmount p]\<rparr>))"

subsection \<open>The driver: \<^verbatim>\<open>driver_dir.go\<close>\<close>

text \<open>
  Modelled from the spec: the type \<^verbatim>\<open>VolumeType\<close> and its four constants are declared
  outside the two files; the spec lists the volume categories as Custom, Image,
  Container and VirtualMachine.
\<close>

datatype VolumeType = VolumeTypeCustom | VolumeTypeImage | VolumeTypeContainer | VolumeTypeVM

text \<open>The fields of \<^verbatim>\<open>Info\<close> that the struct literal of \<^verbatim>\<open>dir.Info\<close> sets.\<close>

record Info =
  Name :: string
  Version :: string
  OptimizedImages :: bool
  PreservesInodes :: bool
  Remote :: bool
  VolumeTypes :: "VolumeType list"
  BlockBacking :: bool
  RunningQuotaResize :: bool
  RunningSnapshotFreeze :: bool

text \<open>
  The struct \<^verbatim>\<open>dir\<close> embeds \<^verbatim>\<open>common\<close>; the methods read its fields \<^verbatim>\<open>name\<close> and
  \<^verbatim>\<open>config\<close>, and \<^verbatim>\<open>Create\<close> writes \<^verbatim>\<open>config\<close>. A method takes the struct and the
  state of the operating system and returns its result with the states it leaves.
\<close>

record dir =
  name :: string
  config :: gomap

definition Info :: "dir \<Rightarrow> 'w os \<Rightarrow> Info \<times> dir \<times> 'w os" where
  "Info d s =
     (\<lparr>Name = ''dir'',
       Version = ''1'',
       OptimizedImages = False,
       PreservesInodes = False,
       Remote = False,
       VolumeTypes = [VolumeTypeCustom, VolumeTypeImage, VolumeTypeContainer, VolumeTypeVM],
       BlockBacking = False,
       RunningQuotaResize = True,
       RunningSnapshotFreeze = True\<rparr>, d, s)"

text \<open>Lines 37 to 40 of \<^verbatim>\<open>Create\<close>: set the default source if it is missing.\<close>

definition set_default_source :: "'w host \<Rightarrow> dir \<Rightarrow> dir" where
  "set_default_source h d =
     (if index (config d) ''source'' = ''''
      then d\<lparr>config := (config d)(''source'' \<mapsto> GetPoolMountPath h (name d))\<rparr>
      else d)"

text \<open>The three messages that \<^verbatim>\<open>Create\<close> formats with \<^verbatim>\<open>fmt.Errorf\<close>.\<close>

definition msg_doesnt_exist :: "string \<Rightarrow> string" where
  "msg_doesnt_exist p = ''Source path '' @ [CHR 0x27] @ p @ [CHR 0x27] @ '' doesn't exist''"

definition msg_within_lxd :: "string \<Rightarrow> string" where
  "msg_within_lxd p =
     ''Source path '' @ [CHR 0x27] @ p @ [CHR 0x27] @ '' is within the LXD directory''"

definition msg_isnt_empty :: "string \<Rightarrow> string" where
  "msg_isnt_empty p = ''Source path '' @ [CHR 0x27] @ p @ [CHR 0x27] @ '' isn't empty''"

definition Create :: "'w host \<Rightarrow> dir \<Rightarrow> 'w os \<Rightarrow> error option \<times> dir \<times> 'w os" where
  "Create h d s =
     (let d1 = set_default_source h d;
          source = index (config d1) ''source'';
          (ex, s1) = os_PathExists h source s
      in if \<not> ex then (Some (Error (msg_doesnt_exist source)), d1, s1)
         else
           let cleanSource = Clean h source
           in if HasPrefix cleanSource (VarPath h)
                 \<and> cleanSource \<noteq> GetPoolMountPath h (name d1)
              then (Some (Error (msg_within_lxd source)), d1, s1)
              else
                let (r, s2) = os_PathIsEmpty h source s1
                in case r of
                     Inl err \<Rightarrow> (Some err, d1, s2)
                   | Inr isEmpty \<Rightarrow>
                       if \<not> isEmpty then (Some (Error (msg_isnt_empty source)), d1, s2)
                       else (None, d1, s2))"

definition Mount :: "'w host \<Rightarrow> dir \<Rightarrow> 'w os \<Rightarrow> (bool \<times> error option) \<times> 'w os" where
  "Mount h d s =
     (let path = GetPoolMountPath h (name d)
      in if index (config d) ''source'' = path then ((False, None), s)
         else
           let (same, s1) = os_sameMount h (index (config d) ''source'') path s
           in if same then ((False, None), s1)
              else
                let (err, s2) =
                      os_TryMount h (index (config d) ''source'') path ''none'' MS_BIND '''' s1
                in case err of
                     Some e \<Rightarrow> ((False, Some e), s2)
                   | None \<Rightarrow> ((True, None), s2))"

definition Unmount :: "'w host \<Rightarrow> dir \<Rightarrow> 'w os \<Rightarrow> (bool \<times> error option) \<times> 'w os" where
  "Unmount h d s =
     (let path = GetPoolMountPath h (name d)
      in if index (config d) ''source'' = path then ((False, None), s)
         else os_forceUnmount h path s)"

definition Delete :: "'w host \<Rightarrow> dir \<Rightarrow> 'w os \<Rightarrow> error option \<times> 'w os" where
  "Delete h d s =
     (let (err, s1) = os_wipeDirectory h (GetPoolMountPath h (name d)) s
      in case err of
           Some e \<Rightarrow> (Some e, s1)
         | None \<Rightarrow>
             (let ((_, err'), s2) = Unmount h d s1
              in (case err' of
                    Some e \<Rightarrow> (Some e, s2)
                  | None \<Rightarrow> (None, s2))))"

subsection \<open>The USB handler registry: \<^verbatim>\<open>device_utils_usb.go\<close>\<close>

record USBDevice =
  Action :: string
  Vendor :: string
  Product :: string
  Path :: string
  Major :: "32 word"
  Minor :: "32 word"
  UeventParts :: "string list"
  UeventLen :: int

text \<open>
  The interface \<^verbatim>\<open>InstanceIdentifier\<close> is used through its methods \<^verbatim>\<open>Project()\<close> and
  \<^verbatim>\<open>Name()\<close> only.
\<close>

record InstanceIdentifier =
  Project :: string
  InstanceName :: string

text \<open>
  The key that both \<^verbatim>\<open>USBRegisterHandler\<close> and \<^verbatim>\<open>USBUnregisterHandler\<close> build with
  \<^verbatim>\<open>fmt.Sprintf("%s\000%s\000%s", instance.Project(), instance.Name(), deviceName)\<close>.
\<close>

definition handlerKey :: "InstanceIdentifier \<Rightarrow> string \<Rightarrow> string" where
  "handlerKey instance deviceName =
     Project instance @ [CHR 0x00] @ InstanceName instance @ [CHR 0x00] @ deviceName"

text \<open>
  The global \<^verbatim>\<open>usbHandlers\<close> is a map from keys to handlers; the type \<open>'f\<close> of the
  handlers is left open (a Go function value, which may be \<^verbatim>\<open>nil\<close>). Both functions
  hold \<^verbatim>\<open>usbMutex\<close> for their whole body, so each is one step on the map.
\<close>

definition USBRegisterHandler ::
  "InstanceIdentifier \<Rightarrow> string \<Rightarrow> 'f \<Rightarrow> (string \<rightharpoonup> 'f) \<Rightarrow> (string \<rightharpoonup> 'f)" where
  "USBRegisterHandler instance deviceName handler usbHandlers =
     (let key = handlerKey instance deviceName in usbHandlers(key \<mapsto> handler))"

definition USBUnregisterHandler ::
  "InstanceIdentifier \<Rightarrow> string \<Rightarrow> (string \<rightharpoonup> 'f) \<Rightarrow> (string \<rightharpoonup> 'f)" where
  "USBUnregisterHandler instance deviceName usbHandlers =
     (let key = handlerKey instance deviceName in usbHandlers(key := None))"

definition USBIsOurDevice :: "gomap \<Rightarrow> USBDevice \<Rightarrow> bool" where
  "USBIsOurDevice cfg usb =
     (if (index cfg ''vendorid'' \<noteq> '''' \<and> index cfg ''vendorid'' \<noteq> Vendor usb)
         \<or> (index cfg ''productid'' \<noteq> '''' \<and> index cfg ''productid'' \<noteq> Product usb)
      then False
      else True)"

subsection \<open>A host to run the driver on\<close>

text \<open>
  The theorems below hold for every host. To evaluate the driver on concrete pools, a
  small host is defined: its state lists the directories that exist with their entries,
  the bind mounts in force as pairs of source and target, the directories that cannot be
  wiped and the mount points that cannot be unmounted. Its \<open>VarPath\<close> is
  \<^verbatim>\<open>/var/lib/lxd\<close>, and every path used with it is already in the form
  \<^verbatim>\<open>filepath.Clean\<close> returns, so its \<open>Clean\<close> is the identity.
\<close>

record table_world =
  dirs :: "string \<rightharpoonup> string list"
  mounts :: "(string \<times> string) list"
  readonly :: "string list"
  busy :: "string list"

definition table_host :: "table_world host" where
  "table_host =
     \<lparr>VarPath = ''/var/lib/lxd'',
      GetPoolMountPath = (\<lambda>poolName. ''/var/lib/lxd/storage-pools/'' @ poolName),
      Clean = (\<lambda>p. p),
      PathExists = (\<lambda>w p. dirs w p \<noteq> None),
      PathIsEmpty = (\<lambda>w p. case dirs w p of
                        None \<Rightarrow> Inl (Error ''no such file or directory'')
                      | Some es \<Rightarrow> Inr (es = [])),
      wipeDirectory = (\<lambda>w p. if p \<in> set (readonly w)
                        then (Some (Error ''read-only file system''), w)
                        else (None, w\<lparr>dirs := (dirs w)(p \<mapsto> [])\<rparr>)),
      sameMount = (\<lambda>w src dst. (src, dst) \<in> set (mounts w)),
      TryMount = (\<lambda>w src dst fs flags options.
                    if dirs w src = None
                    then (Some (Error ''no such file or directory''), w)
                    else (None, w\<lparr>mounts := (src, dst) # mounts w\<rparr>)),
      forceUnmount = (\<lambda>w p. if p \<in> set (busy w)
                        then ((False, Some (Error ''device or resource busy'')), w)
                        else if p \<in> snd ` set (mounts w)
                        then ((True, None), w\<lparr>mounts := filter (\<lambda>m. snd m \<noteq> p) (mounts w)\<rparr>)
                        else ((False, None), w))\<rparr>"

definition table_world0 :: table_world where
  "table_world0 =
     \<lparr>dirs = [''/mnt/data'' \<mapsto> [],
              ''/mnt/full'' \<mapsto> [''a.txt''],
              ''/var/lib/lxd/storage-pools/default'' \<mapsto> [],
              ''/var/lib/lxd/storage-pools/other'' \<mapsto> []],
      mounts = [],
      readonly = [''/var/lib/lxd/storage-pools/locked''],
      busy = [''/var/lib/lxd/storage-pools/stuck'']\<rparr>"

definition table_os :: "table_world os" where
  "table_os = \<lparr>world = table_world0, calls = []\<rparr>"

text \<open>A pool with the given name whose only configuration key is "source".\<close>

definition pool :: "string \<Rightarrow> string \<Rightarrow> dir" where
  "pool n src = \<lparr>name = n, config = [''source'' \<mapsto> src]\<rparr>"

section \<open>Properties of the driver\<close>

subsection \<open>Auxiliary facts\<close>

lemma Create_dir: "fst (snd (Create h d s)) = set_default_source h d"
  by (simp add: Create_def Let_def os_PathExists_def os_PathIsEmpty_def split: sum.splits)

lemma name_set_default_source: "name (set_default_source h d) = name d"
  by (simp add: set_default_source_def)

lemma index_pool: "index (config (pool n src)) ''source'' = src"
  by (simp add: pool_def index_def)

lemma name_pool: "name (pool n src) = n"
  by (simp add: pool_def)

text \<open>
  \<^verbatim>\<open>Create\<close> written out: the struct it leaves, the calls it logs and its result, by
  the outcome of the three checks.
\<close>

lemma Create_unfold:
  "Create h d s =
     (let d1 = set_default_source h d;
          src = index (config d1) ''source'';
          s1 = s\<lparr>calls := calls s @ [CallPathExists src]\<rparr>;
          s2 = s\<lparr>calls := calls s @ [CallPathExists src, CallPathIsEmpty src]\<rparr>
      in if \<not> PathExists h (world s) src then (Some (Error (msg_doesnt_exist src)), d1, s1)
         else if HasPrefix (Clean h src) (VarPath h) \<and> Clean h src \<noteq> GetPoolMountPath h (name d)
         then (Some (Error (msg_within_lxd src)), d1, s1)
         else (case PathIsEmpty h (world s) src of
                 Inl err \<Rightarrow> (Some err, d1, s2)
               | Inr isEmpty \<Rightarrow>
                   if isEmpty then (None, d1, s2)
                   else (Some (Error (msg_isnt_empty src)), d1, s2)))"
  by (simp add: Create_def Let_def os_PathExists_def os_PathIsEmpty_def
        name_set_default_source split: sum.splits)

text \<open>
  Two lists that are equal, each cut at an element that does not occur before the cut,
  have equal parts.
\<close>

lemma split_at_first_delimiter:
  "x \<notin> set xs \<Longrightarrow> x \<notin> set xs' \<Longrightarrow> xs @ x # ys = xs' @ x # ys' \<Longrightarrow> xs = xs' \<and> ys = ys'"
proof (induction xs arbitrary: xs')
  case Nil
  then show ?case by (cases xs') auto
next
  case (Cons a xs)
  then show ?case by (cases xs') auto
qed

lemma handlerKey_inj:
  assumes "CHR 0x00 \<notin> set (Project a)" and "CHR 0x00 \<notin> set (InstanceName a)"
    and "CHR 0x00 \<notin> set (Project b)" and "CHR 0x00 \<notin> set (InstanceName b)"
    and "handlerKey a x = handlerKey b y"
  shows "Project a = Project b \<and> InstanceName a = InstanceName b \<and> x = y"
proof -
  from assms(5) have
    "Project a @ CHR 0x00 # (InstanceName a @ CHR 0x00 # x)
       = Project b @ CHR 0x00 # (InstanceName b @ CHR 0x00 # y)"
    by (simp add: handlerKey_def)
  from split_at_first_delimiter [OF assms(1) assms(3) this]
  have p: "Project a = Project b"
    and r: "InstanceName a @ CHR 0x00 # x = InstanceName b @ CHR 0x00 # y"
    by simp_all
  from split_at_first_delimiter [OF assms(2) assms(4) r] p show ?thesis
    by simp
qed

subsection \<open>\<^verbatim>\<open>Create\<close>\<close>

text \<open>
  C1 (amended). For every pool whose configured source is not empty, exists, and once
  normalized by \<^verbatim>\<open>filepath.Clean\<close> has \<^verbatim>\<open>shared.VarPath()\<close> as a prefix but is not the
  mount path of the pool, \<^verbatim>\<open>Create\<close> fails with an error whose message is exactly
  "Source path '<path>' is within the LXD directory", where <path> is the configured source.
\<close>

theorem Create_within_lxd_message:
  assumes "index (config d) ''source'' = src" and "src \<noteq> ''''"
    and "PathExists h (world s) src"
    and "HasPrefix (Clean h src) (VarPath h)"
    and "Clean h src \<noteq> GetPoolMountPath h (name d)"
  shows "fst (Create h d s)
           = Some (Error (''Source path '' @ [CHR 0x27] @ src @ [CHR 0x27]
                            @ '' is within the LXD directory''))"
  using assms by (simp add: Create_unfold Let_def set_default_source_def msg_within_lxd_def)

text \<open>
  The pool "data" with the directory of another pool as its source.
\<close>

theorem Create_within_lxd_message_witness:
  "index (config (pool ''data'' ''/var/lib/lxd/storage-pools/other'')) ''source''
     = ''/var/lib/lxd/storage-pools/other''
   \<and> ''/var/lib/lxd/storage-pools/other'' \<noteq> ''''
   \<and> PathExists table_host (world table_os) ''/var/lib/lxd/storage-pools/other''
   \<and> HasPrefix (Clean table_host ''/var/lib/lxd/storage-pools/other'') (VarPath table_host)
   \<and> Clean table_host ''/var/lib/lxd/storage-pools/other''
       \<noteq> GetPoolMountPath table_host (name (pool ''data'' ''/var/lib/lxd/storage-pools/other''))
   \<and> fst (Create table_host (pool ''data'' ''/var/lib/lxd/storage-pools/other'') table_os)
       = Some (Error
           ''Source path '/var/lib/lxd/storage-pools/other' is within the LXD directory'')"
proof -
  have a: "index (config (pool ''data'' ''/var/lib/lxd/storage-pools/other'')) ''source''
             = ''/var/lib/lxd/storage-pools/other''"
    by (simp add: index_pool)
  have b: "''/var/lib/lxd/storage-pools/other'' \<noteq> ''''"
    by simp
  have c: "PathExists table_host (world table_os) ''/var/lib/lxd/storage-pools/other''"
    by (simp add: table_host_def table_os_def table_world0_def)
  have d: "HasPrefix (Clean table_host ''/var/lib/lxd/storage-pools/other'') (VarPath table_host)"
    by (simp add: table_host_def HasPrefix_def)
  have e: "Clean table_host ''/var/lib/lxd/storage-pools/other''
             \<noteq> GetPoolMountPath table_host (name (pool ''data'' ''/var/lib/lxd/storage-pools/other''))"
    by (simp add: table_host_def name_pool)
  from Create_within_lxd_message [OF a b c d e]
  have "fst (Create table_host (pool ''data'' ''/var/lib/lxd/storage-pools/other'') table_os)
       = Some (Error
           ''Source path '/var/lib/lxd/storage-pools/other' is within the LXD directory'')"
    by simp
  with a b c d e show ?thesis by blast
qed

text \<open>
  C1 as stated fails twice. For the pool "data" with source
  \<^verbatim>\<open>/var/lib/lxd/storage-pools/other\<close>, which exists, the message ends in "is within the
  LXD directory" and not in "is within the managed storage directory". For the source
  \<^verbatim>\<open>/var/lib/lxd/storage-pools/gone\<close>, which is under the root as well but does not exist,
  \<^verbatim>\<open>Create\<close> fails in the existence check, with the message of that check.
\<close>

theorem Create_managed_storage_message_counterexample:
  "index (config (pool ''data'' ''/var/lib/lxd/storage-pools/other'')) ''source''
     = ''/var/lib/lxd/storage-pools/other''
   \<and> HasPrefix (Clean table_host ''/var/lib/lxd/storage-pools/other'') (VarPath table_host)
   \<and> Clean table_host ''/var/lib/lxd/storage-pools/other''
       \<noteq> GetPoolMountPath table_host (name (pool ''data'' ''/var/lib/lxd/storage-pools/other''))
   \<and> fst (Create table_host (pool ''data'' ''/var/lib/lxd/storage-pools/other'') table_os)
       = Some (Error
           ''Source path '/var/lib/lxd/storage-pools/other' is within the LXD directory'')
   \<and> fst (Create table_host (pool ''data'' ''/var/lib/lxd/storage-pools/other'') table_os)
       \<noteq> Some (Error
           ''Source path '/var/lib/lxd/storage-pools/other' is within the managed storage directory'')
   \<and> index (config (pool ''data'' ''/var/lib/lxd/storage-pools/gone'')) ''source''
     = ''/var/lib/lxd/storage-pools/gone''
   \<and> HasPrefix (Clean table_host ''/var/lib/lxd/storage-pools/gone'') (VarPath table_host)
   \<and> Clean table_host ''/var/lib/lxd/storage-pools/gone''
       \<noteq> GetPoolMountPath table_host (name (pool ''data'' ''/var/lib/lxd/storage-pools/gone''))
   \<and> fst (Create table_host (pool ''data'' ''/var/lib/lxd/storage-pools/gone'') table_os)
       = Some (Error ''Source path '/var/lib/lxd/storage-pools/gone' doesn't exist'')"
  by (simp add: Create_def Let_def os_PathExists_def os_PathIsEmpty_def set_default_source_def
        index_pool name_pool table_host_def table_os_def table_world0_def HasPrefix_def
        msg_doesnt_exist_def msg_within_lxd_def)

text \<open>
  C3. \<^verbatim>\<open>Create\<close> checks, on the source it has after the default is set, first that the
  source exists, then that it is not inside the LXD directory at another place than the
  mount path of the pool, then that it is empty. The first check that fails decides the
  result: when the source does not exist, the error is the one of the existence check
  whatever the two other checks would give, and \<^verbatim>\<open>PathIsEmpty\<close> is not called; when it
  exists and is inside the LXD directory, the error is the one of the containment check
  and \<^verbatim>\<open>PathIsEmpty\<close> is not called; otherwise \<^verbatim>\<open>PathIsEmpty\<close> is called, after
  \<^verbatim>\<open>PathExists\<close>, and its error or a non-empty directory fails \<^verbatim>\<open>Create\<close>; when all
  three checks pass \<^verbatim>\<open>Create\<close> returns \<^verbatim>\<open>nil\<close>.
\<close>

theorem Create_checks_in_order:
  assumes "src = index (config (set_default_source h d)) ''source''"
    and "within = (HasPrefix (Clean h src) (VarPath h) \<and> Clean h src \<noteq> GetPoolMountPath h (name d))"
    and "s1 = s\<lparr>calls := calls s @ [CallPathExists src]\<rparr>"
    and "s2 = s\<lparr>calls := calls s @ [CallPathExists src, CallPathIsEmpty src]\<rparr>"
  shows
    "(\<not> PathExists h (world s) src \<longrightarrow>
        Create h d s = (Some (Error (msg_doesnt_exist src)), set_default_source h d, s1))
     \<and> (PathExists h (world s) src \<and> within \<longrightarrow>
        Create h d s = (Some (Error (msg_within_lxd src)), set_default_source h d, s1))
     \<and> (PathExists h (world s) src \<and> \<not> within \<and> PathIsEmpty h (world s) src = Inl e \<longrightarrow>
        Create h d s = (Some e, set_default_source h d, s2))
     \<and> (PathExists h (world s) src \<and> \<not> within \<and> PathIsEmpty h (world s) src = Inr False \<longrightarrow>
        Create h d s = (Some (Error (msg_isnt_empty src)), set_default_source h d, s2))
     \<and> (PathExists h (world s) src \<and> \<not> within \<and> PathIsEmpty h (world s) src = Inr True \<longrightarrow>
        Create h d s = (None, set_default_source h d, s2))"
  using assms by (simp add: Create_unfold Let_def)

text \<open>
  One pool for each of the five outcomes; the last one is on a host whose
  \<^verbatim>\<open>PathIsEmpty\<close> itself fails.
\<close>

theorem Create_checks_in_order_witness:
  "\<not> PathExists table_host (world table_os) ''/mnt/nothing''
   \<and> Create table_host (pool ''data'' ''/mnt/nothing'') table_os
       = (Some (Error ''Source path '/mnt/nothing' doesn't exist''),
          pool ''data'' ''/mnt/nothing'',
          table_os\<lparr>calls := [CallPathExists ''/mnt/nothing'']\<rparr>)
   \<and> PathExists table_host (world table_os) ''/var/lib/lxd/storage-pools/other''
   \<and> HasPrefix (Clean table_host ''/var/lib/lxd/storage-pools/other'') (VarPath table_host)
   \<and> Clean table_host ''/var/lib/lxd/storage-pools/other'' \<noteq> GetPoolMountPath table_host ''data''
   \<and> Create table_host (pool ''data'' ''/var/lib/lxd/storage-pools/other'') table_os
       = (Some (Error ''Source path '/var/lib/lxd/storage-pools/other' is within the LXD directory''),
          pool ''data'' ''/var/lib/lxd/storage-pools/other'',
          table_os\<lparr>calls := [CallPathExists ''/var/lib/lxd/storage-pools/other'']\<rparr>)
   \<and> PathExists table_host (world table_os) ''/mnt/full''
   \<and> \<not> HasPrefix (Clean table_host ''/mnt/full'') (VarPath table_host)
   \<and> PathIsEmpty table_host (world table_os) ''/mnt/full'' = Inr False
   \<and> Create table_host (pool ''bad'' ''/mnt/full'') table_os
       = (Some (Error ''Source path '/mnt/full' isn't empty''),
          pool ''bad'' ''/mnt/full'',
          table_os\<lparr>calls := [CallPathExists ''/mnt/full'', CallPathIsEmpty ''/mnt/full'']\<rparr>)
   \<and> PathExists table_host (world table_os) ''/mnt/data''
   \<and> \<not> HasPrefix (Clean table_host ''/mnt/data'') (VarPath table_host)
   \<and> PathIsEmpty table_host (world table_os) ''/mnt/data'' = Inr True
   \<and> Create table_host (pool ''data'' ''/mnt/data'') table_os
       = (None, pool ''data'' ''/mnt/data'',
          table_os\<lparr>calls := [CallPathExists ''/mnt/data'', CallPathIsEmpty ''/mnt/data'']\<rparr>)
   \<and> PathExists (table_host\<lparr>PathIsEmpty := \<lambda>w p. Inl (Error ''permission denied'')\<rparr>)
         (world table_os) ''/mnt/data''
   \<and> Create (table_host\<lparr>PathIsEmpty := \<lambda>w p. Inl (Error ''permission denied'')\<rparr>)
         (pool ''data'' ''/mnt/data'') table_os
       = (Some (Error ''permission denied''), pool ''data'' ''/mnt/data'',
          table_os\<lparr>calls := [CallPathExists ''/mnt/data'', CallPathIsEmpty ''/mnt/data'']\<rparr>)"
proof -
  note ev = set_default_source_def index_pool name_pool table_host_def table_os_def
    table_world0_def HasPrefix_def msg_doesnt_exist_def msg_within_lxd_def msg_isnt_empty_def
  have 1: "\<not> PathExists table_host (world table_os) ''/mnt/nothing''
     \<and> Create table_host (pool ''data'' ''/mnt/nothing'') table_os
       = (Some (Error ''Source path '/mnt/nothing' doesn't exist''),
          pool ''data'' ''/mnt/nothing'',
          table_os\<lparr>calls := [CallPathExists ''/mnt/nothing'']\<rparr>)"
    using Create_checks_in_order [OF refl refl refl refl,
        where h = table_host and d = "pool ''data'' ''/mnt/nothing''" and s = table_os]
    by (simp add: ev)
  have 2: "PathExists table_host (world table_os) ''/var/lib/lxd/storage-pools/other''
     \<and> HasPrefix (Clean table_host ''/var/lib/lxd/storage-pools/other'') (VarPath table_host)
     \<and> Clean table_host ''/var/lib/lxd/storage-pools/other'' \<noteq> GetPoolMountPath table_host ''data''
     \<and> Create table_host (pool ''data'' ''/var/lib/lxd/storage-pools/other'') table_os
       = (Some (Error ''Source path '/var/lib/lxd/storage-pools/other' is within the LXD directory''),
          pool ''data'' ''/var/lib/lxd/storage-pools/other'',
          table_os\<lparr>calls := [CallPathExists ''/var/lib/lxd/storage-pools/other'']\<rparr>)"
    using Create_checks_in_order [OF refl refl refl refl,
        where h = table_host and d = "pool ''data'' ''/var/lib/lxd/storage-pools/other''"
          and s = table_os]
    by (simp add: ev)
  have 3: "PathExists table_host (world table_os) ''/mnt/full''
     \<and> \<not> HasPrefix (Clean table_host ''/mnt/full'') (VarPath table_host)
     \<and> PathIsEmpty table_host (world table_os) ''/mnt/full'' = Inr False
     \<and> Create table_host (pool ''bad'' ''/mnt/full'') table_os
       = (Some (Error ''Source path '/mnt/full' isn't empty''),
          pool ''bad'' ''/mnt/full'',
          table_os\<lparr>calls := [CallPathExists ''/mnt/full'', CallPathIsEmpty ''/mnt/full'']\<rparr>)"
    using Create_checks_in_order [OF refl refl refl refl,
        where h = table_host and d = "pool ''bad'' ''/mnt/full''" and s = table_os]
    by (simp add: ev)
  have 4: "PathExists table_host (world table_os) ''/mnt/data''
     \<and> \<not> HasPrefix (Clean table_host ''/mnt/data'') (VarPath table_host)
     \<and> PathIsEmpty table_host (world table_os) ''/mnt/data'' = Inr True
     \<and> Create table_host (pool ''data'' ''/mnt/data'') table_os
       = (None, pool ''data'' ''/mnt/data'',
          table_os\<lparr>calls := [CallPathExists ''/mnt/data'', CallPathIsEmpty ''/mnt/data'']\<rparr>)"
    using Create_checks_in_order [OF refl refl refl refl,
        where h = table_host and d = "pool ''data'' ''/mnt/data''" and s = table_os]
    by (simp add: ev)
  have 5: "PathExists (table_host\<lparr>PathIsEmpty := \<lambda>w p. Inl (Error ''permission denied'')\<rparr>)
         (world table_os) ''/mnt/data''
     \<and> Create (table_host\<lparr>PathIsEmpty := \<lambda>w p. Inl (Error ''permission denied'')\<rparr>)
         (pool ''data'' ''/mnt/data'') table_os
       = (Some (Error ''permission denied''), pool ''data'' ''/mnt/data'',
          table_os\<lparr>calls := [CallPathExists ''/mnt/data'', CallPathIsEmpty ''/mnt/data'']\<rparr>)"
    using Create_checks_in_order [OF refl refl refl refl,
        where h = "table_host\<lparr>PathIsEmpty := \<lambda>w p. Inl (Error ''permission denied'')\<rparr>"
          and d = "pool ''data'' ''/mnt/data''" and s = table_os
          and e = "Error ''permission denied''"]
    by (simp add: ev)
  from 1 2 3 4 5 show ?thesis by blast
qed

text \<open>
  C6. When "source" is unset (empty) in the configuration, \<^verbatim>\<open>Create\<close>, whatever it
  returns, leaves a configuration in which "source" is the mount path of the pool and
  nothing else has changed; its checks are made on that path (the calls it logs are
  \<^verbatim>\<open>PathExists\<close> and possibly \<^verbatim>\<open>PathIsEmpty\<close>, both on the mount path); and \<^verbatim>\<open>Mount\<close>
  on the struct it leaves returns \<^verbatim>\<open>(false, nil)\<close> in every state of the operating
  system, which it leaves as it is.
\<close>

theorem Create_default_source:
  assumes "index (config d) ''source'' = ''''" and "Create h d s = (r, d', s')"
    and "p = GetPoolMountPath h (name d)"
  shows "config d' = (config d)(''source'' \<mapsto> p)
       \<and> name d' = name d
       \<and> (calls s' = calls s @ [CallPathExists p]
          \<or> calls s' = calls s @ [CallPathExists p, CallPathIsEmpty p])
       \<and> Mount h d' t = ((False, None), t)"
proof -
  from assms(2) have d': "d' = set_default_source h d"
    using Create_dir [of h d s] by simp
  with assms(1,3) have cfg: "config d' = (config d)(''source'' \<mapsto> p)" and nm: "name d' = name d"
    by (simp_all add: set_default_source_def)
  from cfg have src: "index (config d') ''source'' = p"
    by (simp add: index_def)
  have "index (config (set_default_source h d)) ''source'' = p"
    using src d' by simp
  with assms(2) have "calls s' = calls s @ [CallPathExists p]
          \<or> calls s' = calls s @ [CallPathExists p, CallPathIsEmpty p]"
    by (auto simp: Create_unfold Let_def split: if_splits sum.splits)
  moreover have "Mount h d' t = ((False, None), t)"
    using src nm assms(3) by (simp add: Mount_def)
  ultimately show ?thesis using cfg nm by blast
qed

text \<open>
  Scenario A of the specification: the pool "default" with no source.
\<close>

theorem Create_default_source_witness:
  "index (config \<lparr>name = ''default'', config = Map.empty\<rparr>) ''source'' = ''''
   \<and> Create table_host \<lparr>name = ''default'', config = Map.empty\<rparr> table_os
       = (None, pool ''default'' ''/var/lib/lxd/storage-pools/default'',
          table_os\<lparr>calls := [CallPathExists ''/var/lib/lxd/storage-pools/default'',
                             CallPathIsEmpty ''/var/lib/lxd/storage-pools/default'']\<rparr>)
   \<and> config (pool ''default'' ''/var/lib/lxd/storage-pools/default'')
       = [''source'' \<mapsto> ''/var/lib/lxd/storage-pools/default'']
   \<and> Mount table_host (pool ''default'' ''/var/lib/lxd/storage-pools/default'')
         (table_os\<lparr>calls := [CallPathExists ''/var/lib/lxd/storage-pools/default'',
                             CallPathIsEmpty ''/var/lib/lxd/storage-pools/default'']\<rparr>)
       = ((False, None),
          table_os\<lparr>calls := [CallPathExists ''/var/lib/lxd/storage-pools/default'',
                             CallPathIsEmpty ''/var/lib/lxd/storage-pools/default'']\<rparr>)"
proof -
  have a: "index (config \<lparr>name = ''default'', config = Map.empty\<rparr>) ''source'' = ''''"
    by (simp add: index_def)
  have b: "Create table_host \<lparr>name = ''default'', config = Map.empty\<rparr> table_os
       = (None, pool ''default'' ''/var/lib/lxd/storage-pools/default'',
          table_os\<lparr>calls := [CallPathExists ''/var/lib/lxd/storage-pools/default'',
                             CallPathIsEmpty ''/var/lib/lxd/storage-pools/default'']\<rparr>)"
    by (simp add: Create_def Let_def os_PathExists_def os_PathIsEmpty_def set_default_source_def
          index_def pool_def table_host_def table_os_def table_world0_def HasPrefix_def)
  have c: "''/var/lib/lxd/storage-pools/default''
             = GetPoolMountPath table_host (name \<lparr>name = ''default'', config = Map.empty\<rparr>)"
    by (simp add: table_host_def)
  from Create_default_source [OF a b c] a b show ?thesis
    by simp
qed

text \<open>
  C8. \<^verbatim>\<open>Create\<close> leaves every configuration key other than "source" as it was. When
  "source" is not empty the whole configuration is unchanged, whether \<^verbatim>\<open>Create\<close>
  succeeds or fails; when it is empty, the only change is that "source" becomes the mount
  path of the pool. The name of the pool is never changed.
\<close>

theorem Create_config_frame:
  "(\<forall>k. k \<noteq> ''source'' \<longrightarrow> config (fst (snd (Create h d s))) k = config d k)
   \<and> (index (config d) ''source'' \<noteq> '''' \<longrightarrow> config (fst (snd (Create h d s))) = config d)
   \<and> (index (config d) ''source'' = '''' \<longrightarrow>
        config (fst (snd (Create h d s)))
          = (config d)(''source'' \<mapsto> GetPoolMountPath h (name d)))
   \<and> name (fst (snd (Create h d s))) = name d"
  by (simp add: Create_dir set_default_source_def)

text \<open>
  A pool with a source, and a pool without one that has another key.
\<close>

theorem Create_config_frame_witness:
  "index (config (pool ''data'' ''/mnt/data'')) ''source'' \<noteq> ''''
   \<and> config (fst (snd (Create table_host (pool ''data'' ''/mnt/data'') table_os)))
       = config (pool ''data'' ''/mnt/data'')
   \<and> index (config \<lparr>name = ''default'', config = [''size'' \<mapsto> ''1GB'']\<rparr>) ''source'' = ''''
   \<and> ''size'' \<noteq> ''source''
   \<and> config (fst (snd (Create table_host
         \<lparr>name = ''default'', config = [''size'' \<mapsto> ''1GB'']\<rparr> table_os))) ''size''
       = Some ''1GB''
   \<and> config (fst (snd (Create table_host
         \<lparr>name = ''default'', config = [''size'' \<mapsto> ''1GB'']\<rparr> table_os)))
       = [''size'' \<mapsto> ''1GB'', ''source'' \<mapsto> ''/var/lib/lxd/storage-pools/default'']"
proof -
  have a: "index (config (pool ''data'' ''/mnt/data'')) ''source'' \<noteq> ''''"
    by (simp add: index_pool)
  have b: "index (config \<lparr>name = ''default'', config = [''size'' \<mapsto> ''1GB'']\<rparr>) ''source'' = ''''"
    by (simp add: index_def)
  have c: "''size'' \<noteq> ''source''"
    by simp
  from Create_config_frame [of table_host "pool ''data'' ''/mnt/data''" table_os] a
  have 1: "config (fst (snd (Create table_host (pool ''data'' ''/mnt/data'') table_os)))
             = config (pool ''data'' ''/mnt/data'')"
    by blast
  from Create_config_frame
         [of table_host "\<lparr>name = ''default'', config = [''size'' \<mapsto> ''1GB'']\<rparr>" table_os] b c
  have 2: "config (fst (snd (Create table_host
             \<lparr>name = ''default'', config = [''size'' \<mapsto> ''1GB'']\<rparr> table_os))) ''size''
           = Some ''1GB''"
    and 3: "config (fst (snd (Create table_host
             \<lparr>name = ''default'', config = [''size'' \<mapsto> ''1GB'']\<rparr> table_os)))
           = [''size'' \<mapsto> ''1GB'', ''source'' \<mapsto> ''/var/lib/lxd/storage-pools/default'']"
    by (simp_all add: table_host_def)
  from a b c 1 2 3 show ?thesis by blast
qed

subsection \<open>\<^verbatim>\<open>Delete\<close>\<close>

text \<open>
  C2. \<^verbatim>\<open>Delete\<close> first wipes the mount path of the pool. If the wipe returns an error,
  \<^verbatim>\<open>Delete\<close> returns that error, the only call made is the wipe, and the operating system
  is left in the state the wipe left it: no unmount is attempted. If the wipe succeeds,
  \<^verbatim>\<open>Delete\<close> goes on with \<^verbatim>\<open>Unmount\<close> in the state the wipe left and returns the error
  of \<^verbatim>\<open>Unmount\<close>, \<^verbatim>\<open>nil\<close> if there is none: for a pool whose source is its mount path
  nothing more is called, and for any other pool \<^verbatim>\<open>forceUnmount\<close> is called after the wipe
  and its error is the result.
\<close>

theorem Delete_wipe_then_unmount:
  assumes "p = GetPoolMountPath h (name d)"
    and "wipeDirectory h (world s) p = (werr, w1)"
    and "s1 = \<lparr>world = w1, calls = calls s @ [CallWipeDirectory p]\<rparr>"
  shows
    "(werr = Some e \<longrightarrow> Delete h d s = (Some e, s1))
     \<and> (werr = None \<longrightarrow>
          Delete h d s = (snd (fst (Unmount h d s1)), snd (Unmount h d s1)))
     \<and> (werr = None \<and> index (config d) ''source'' = p \<longrightarrow> Delete h d s = (None, s1))
     \<and> (werr = None \<and> index (config d) ''source'' \<noteq> p
          \<and> forceUnmount h w1 p = ((b, uerr), w2) \<longrightarrow>
          Delete h d s
            = (uerr, \<lparr>world = w2,
                      calls = calls s @ [CallWipeDirectory p, CallForceUnmount p]\<rparr>))"
proof -
  have wipe: "os_wipeDirectory h (GetPoolMountPath h (name d)) s = (werr, s1)"
    using assms by (simp add: os_wipeDirectory_def)
  have 1: "werr = Some e \<longrightarrow> Delete h d s = (Some e, s1)"
    by (simp add: Delete_def wipe)
  have 2: "werr = None \<longrightarrow>
          Delete h d s = (snd (fst (Unmount h d s1)), snd (Unmount h d s1))"
    by (simp add: Delete_def wipe split: prod.splits option.splits)
  have 3: "werr = None \<and> index (config d) ''source'' = p \<longrightarrow> Delete h d s = (None, s1)"
    using 2 assms(1) by (simp add: Unmount_def Let_def)
  have 4: "werr = None \<and> index (config d) ''source'' \<noteq> p
          \<and> forceUnmount h w1 p = ((b, uerr), w2) \<longrightarrow>
          Delete h d s
            = (uerr, \<lparr>world = w2,
                      calls = calls s @ [CallWipeDirectory p, CallForceUnmount p]\<rparr>)"
    using 2 assms(1,3) by (simp add: Unmount_def os_forceUnmount_def Let_def)
  from 1 2 3 4 show ?thesis by blast
qed

text \<open>
  The pool "locked", whose mount path cannot be wiped, and the pool "stuck", whose mount
  path is wiped but cannot be unmounted.
\<close>

theorem Delete_wipe_then_unmount_witness:
  "wipeDirectory table_host (world table_os) (GetPoolMountPath table_host ''locked'')
     = (Some (Error ''read-only file system''), table_world0)
   \<and> Delete table_host (pool ''locked'' ''/mnt/data'') table_os
       = (Some (Error ''read-only file system''),
          \<lparr>world = table_world0,
           calls = [CallWipeDirectory ''/var/lib/lxd/storage-pools/locked'']\<rparr>)
   \<and> wipeDirectory table_host (world table_os) (GetPoolMountPath table_host ''stuck'')
       = (None, table_world0\<lparr>dirs := (dirs table_world0)(''/var/lib/lxd/storage-pools/stuck'' \<mapsto> [])\<rparr>)
   \<and> index (config (pool ''stuck'' ''/mnt/data'')) ''source'' \<noteq> GetPoolMountPath table_host ''stuck''
   \<and> forceUnmount table_host
         (table_world0\<lparr>dirs := (dirs table_world0)(''/var/lib/lxd/storage-pools/stuck'' \<mapsto> [])\<rparr>)
         (GetPoolMountPath table_host ''stuck'')
       = ((False, Some (Error ''device or resource busy'')),
          table_world0\<lparr>dirs := (dirs table_world0)(''/var/lib/lxd/storage-pools/stuck'' \<mapsto> [])\<rparr>)
   \<and> Delete table_host (pool ''stuck'' ''/mnt/data'') table_os
       = (Some (Error ''device or resource busy''),
          \<lparr>world = table_world0\<lparr>dirs := (dirs table_world0)(''/var/lib/lxd/storage-pools/stuck'' \<mapsto> [])\<rparr>,
           calls = [CallWipeDirectory ''/var/lib/lxd/storage-pools/stuck'',
                    CallForceUnmount ''/var/lib/lxd/storage-pools/stuck'']\<rparr>)"
proof -
  note ev = table_host_def table_os_def table_world0_def index_pool name_pool
  have p1: "GetPoolMountPath table_host ''locked''
              = GetPoolMountPath table_host (name (pool ''locked'' ''/mnt/data''))"
    and p2: "GetPoolMountPath table_host ''stuck''
              = GetPoolMountPath table_host (name (pool ''stuck'' ''/mnt/data''))"
    by (simp_all add: name_pool)
  have a: "wipeDirectory table_host (world table_os) (GetPoolMountPath table_host ''locked'')
     = (Some (Error ''read-only file system''), table_world0)"
    by (simp add: ev)
  have 1: "Delete table_host (pool ''locked'' ''/mnt/data'') table_os
       = (Some (Error ''read-only file system''),
          \<lparr>world = table_world0,
           calls = [CallWipeDirectory ''/var/lib/lxd/storage-pools/locked'']\<rparr>)"
    using Delete_wipe_then_unmount [OF p1 a refl, where e = "Error ''read-only file system''"]
    by (simp add: table_host_def table_os_def)
  have b: "wipeDirectory table_host (world table_os) (GetPoolMountPath table_host ''stuck'')
       = (None, table_world0\<lparr>dirs := (dirs table_world0)(''/var/lib/lxd/storage-pools/stuck'' \<mapsto> [])\<rparr>)"
    by (simp add: ev)
  have c: "index (config (pool ''stuck'' ''/mnt/data'')) ''source''
             \<noteq> GetPoolMountPath table_host ''stuck''"
    by (simp add: ev)
  have d: "forceUnmount table_host
         (table_world0\<lparr>dirs := (dirs table_world0)(''/var/lib/lxd/storage-pools/stuck'' \<mapsto> [])\<rparr>)
         (GetPoolMountPath table_host ''stuck'')
       = ((False, Some (Error ''device or resource busy'')),
          table_world0\<lparr>dirs := (dirs table_world0)(''/var/lib/lxd/storage-pools/stuck'' \<mapsto> [])\<rparr>)"
    by (simp add: ev)
  have 2: "Delete table_host (pool ''stuck'' ''/mnt/data'') table_os
       = (Some (Error ''device or resource busy''),
          \<lparr>world = table_world0\<lparr>dirs := (dirs table_world0)(''/var/lib/lxd/storage-pools/stuck'' \<mapsto> [])\<rparr>,
           calls = [CallWipeDirectory ''/var/lib/lxd/storage-pools/stuck'',
                    CallForceUnmount ''/var/lib/lxd/storage-pools/stuck'']\<rparr>)"
  proof -
    from Delete_wipe_then_unmount [OF p2 b refl, where b = False
          and uerr = "Some (Error ''device or resource busy'')"
          and ?w2.0 = "table_world0\<lparr>dirs := (dirs table_world0)(''/var/lib/lxd/storage-pools/stuck'' \<mapsto> [])\<rparr>"]
        c d
    have "Delete table_host (pool ''stuck'' ''/mnt/data'') table_os
       = (Some (Error ''device or resource busy''),
          \<lparr>world = table_world0\<lparr>dirs := (dirs table_world0)(''/var/lib/lxd/storage-pools/stuck'' \<mapsto> [])\<rparr>,
           calls = calls table_os @ [CallWipeDirectory (GetPoolMountPath table_host ''stuck''),
                    CallForceUnmount (GetPoolMountPath table_host ''stuck'')]\<rparr>)"
      by blast
    then show ?thesis
      by (simp add: table_host_def table_os_def)
  qed
  from a 1 b c d 2 show ?thesis by blast
qed

subsection \<open>\<^verbatim>\<open>Mount\<close> and \<^verbatim>\<open>Unmount\<close>\<close>




text \<open>
  C5. For every pool whose source is equal to its mount path, \<^verbatim>\<open>Mount\<close> and \<^verbatim>\<open>Unmount\<close>
  both return \<^verbatim>\<open>(false, nil)\<close>, call no helper and leave the operating system as it is.
\<close>

theorem self_managed_noop:
  "index (config d) ''source'' = GetPoolMountPath h (name d) \<Longrightarrow>
     Mount h d s = ((False, None), s) \<and> Unmount h d s = ((False, None), s)"
  by (simp add: Mount_def Unmount_def)

text \<open>
  The pool "default" with its own mount path as source.
\<close>

theorem self_managed_noop_witness:
  "index (config (pool ''default'' ''/var/lib/lxd/storage-pools/default'')) ''source''
     = GetPoolMountPath table_host (name (pool ''default'' ''/var/lib/lxd/storage-pools/default''))
   \<and> Mount table_host (pool ''default'' ''/var/lib/lxd/storage-pools/default'') table_os
       = ((False, None), table_os)
   \<and> Unmount table_host (pool ''default'' ''/var/lib/lxd/storage-pools/default'') table_os
       = ((False, None), table_os)"
proof -
  have h: "index (config (pool ''default'' ''/var/lib/lxd/storage-pools/default'')) ''source''
     = GetPoolMountPath table_host (name (pool ''default'' ''/var/lib/lxd/storage-pools/default''))"
    by (simp add: index_pool name_pool table_host_def)
  from self_managed_noop [OF h] h show ?thesis by blast
qed

text \<open>
  C7. \<^verbatim>\<open>Info\<close> returns, whatever the struct and the state of the operating system
  (so also before \<^verbatim>\<open>Create\<close>), the same record: name "dir", version "1", the four volume
  types Custom, Image, Container and VM, quota resize and snapshot freeze while running
  both true, optimized images, inode preservation, remoteness and block backing all false;
  it leaves the struct and the operating system as they were, and two calls in any two
  states return the same record.
\<close>

theorem Info_constant_and_pure:
  "Name (fst (Info d s)) = ''dir''
   \<and> Version (fst (Info d s)) = ''1''
   \<and> set (VolumeTypes (fst (Info d s)))
       = {VolumeTypeCustom, VolumeTypeImage, VolumeTypeContainer, VolumeTypeVM}
   \<and> set (VolumeTypes (fst (Info d s))) = UNIV
   \<and> RunningQuotaResize (fst (Info d s))
   \<and> RunningSnapshotFreeze (fst (Info d s))
   \<and> \<not> OptimizedImages (fst (Info d s))
   \<and> \<not> PreservesInodes (fst (Info d s))
   \<and> \<not> Remote (fst (Info d s))
   \<and> \<not> BlockBacking (fst (Info d s))
   \<and> snd (Info d s) = (d, s)
   \<and> fst (Info d s) = fst (Info d' s')"
proof -
  have "(UNIV :: VolumeType set)
          = {VolumeTypeCustom, VolumeTypeImage, VolumeTypeContainer, VolumeTypeVM}"
    using VolumeType.exhaust by auto
  then show ?thesis
    by (simp add: Info_def)
qed

section \<open>Properties of the USB helpers\<close>

text \<open>
  C9 (amended). \<^verbatim>\<open>USBRegisterHandler\<close> followed by \<^verbatim>\<open>USBUnregisterHandler\<close> with the same
  project, instance and device names leaves a registry with no entry for that triple: the
  registry it started from with that key removed. For two different triples whose project
  and instance names contain no null byte, registering or unregistering one leaves the
  entry of the other as it was.
\<close>

theorem USB_register_unregister:
  "USBUnregisterHandler i dev (USBRegisterHandler i dev f reg) (handlerKey i dev) = None
   \<and> USBUnregisterHandler i dev (USBRegisterHandler i dev f reg) = reg(handlerKey i dev := None)
   \<and> (CHR 0x00 \<notin> set (Project i) \<and> CHR 0x00 \<notin> set (InstanceName i)
      \<and> CHR 0x00 \<notin> set (Project i') \<and> CHR 0x00 \<notin> set (InstanceName i')
      \<and> (Project i, InstanceName i, dev) \<noteq> (Project i', InstanceName i', dev') \<longrightarrow>
        USBRegisterHandler i dev f reg (handlerKey i' dev') = reg (handlerKey i' dev')
        \<and> USBUnregisterHandler i dev reg (handlerKey i' dev') = reg (handlerKey i' dev'))"
proof -
  have "handlerKey i dev \<noteq> handlerKey i' dev'"
    if "CHR 0x00 \<notin> set (Project i)" "CHR 0x00 \<notin> set (InstanceName i)"
      "CHR 0x00 \<notin> set (Project i')" "CHR 0x00 \<notin> set (InstanceName i')"
      "(Project i, InstanceName i, dev) \<noteq> (Project i', InstanceName i', dev')"
    using handlerKey_inj [OF that(1-4), of dev dev'] that(5) by auto
  then show ?thesis
    by (auto simp: USBRegisterHandler_def USBUnregisterHandler_def)
qed

text \<open>
  Two instances of the project "default", each with a device "usb0".
\<close>

theorem USB_register_unregister_witness:
  "CHR 0x00 \<notin> set (Project \<lparr>Project = ''default'', InstanceName = ''c1''\<rparr>)
   \<and> CHR 0x00 \<notin> set (InstanceName \<lparr>Project = ''default'', InstanceName = ''c1''\<rparr>)
   \<and> CHR 0x00 \<notin> set (Project \<lparr>Project = ''default'', InstanceName = ''c2''\<rparr>)
   \<and> CHR 0x00 \<notin> set (InstanceName \<lparr>Project = ''default'', InstanceName = ''c2''\<rparr>)
   \<and> (''default'', ''c1'', ''usb0'') \<noteq> (''default'', ''c2'', ''usb0'')
   \<and> USBUnregisterHandler \<lparr>Project = ''default'', InstanceName = ''c1''\<rparr> ''usb0''
        (USBRegisterHandler \<lparr>Project = ''default'', InstanceName = ''c1''\<rparr> ''usb0'' (1::nat)
           [handlerKey \<lparr>Project = ''default'', InstanceName = ''c2''\<rparr> ''usb0'' \<mapsto> 2])
        (handlerKey \<lparr>Project = ''default'', InstanceName = ''c1''\<rparr> ''usb0'') = None
   \<and> USBRegisterHandler \<lparr>Project = ''default'', InstanceName = ''c1''\<rparr> ''usb0'' (1::nat)
        [handlerKey \<lparr>Project = ''default'', InstanceName = ''c2''\<rparr> ''usb0'' \<mapsto> 2]
        (handlerKey \<lparr>Project = ''default'', InstanceName = ''c2''\<rparr> ''usb0'') = Some 2
   \<and> USBUnregisterHandler \<lparr>Project = ''default'', InstanceName = ''c1''\<rparr> ''usb0''
        [handlerKey \<lparr>Project = ''default'', InstanceName = ''c2''\<rparr> ''usb0'' \<mapsto> (2::nat)]
        (handlerKey \<lparr>Project = ''default'', InstanceName = ''c2''\<rparr> ''usb0'') = Some 2"
  using USB_register_unregister
    [of "\<lparr>Project = ''default'', InstanceName = ''c1''\<rparr>" "''usb0''" "1::nat"
        "[handlerKey \<lparr>Project = ''default'', InstanceName = ''c2''\<rparr> ''usb0'' \<mapsto> 2]"
        "\<lparr>Project = ''default'', InstanceName = ''c2''\<rparr>" "''usb0''"]
  by simp

text \<open>
  C9 as stated fails for names that contain a null byte. The triples (a\<^verbatim>\<open>\0\<close>b, c, d) and
  (a, b\<^verbatim>\<open>\0\<close>c, d) are different and have the same key: unregistering the first removes
  the handler registered for the second, and registering the first replaces it.
\<close>

theorem USB_key_collision_counterexample:
  "(Project \<lparr>Project = ''a'' @ [CHR 0x00] @ ''b'', InstanceName = ''c''\<rparr>,
    InstanceName \<lparr>Project = ''a'' @ [CHR 0x00] @ ''b'', InstanceName = ''c''\<rparr>, ''d'')
     \<noteq> (Project \<lparr>Project = ''a'', InstanceName = ''b'' @ [CHR 0x00] @ ''c''\<rparr>,
        InstanceName \<lparr>Project = ''a'', InstanceName = ''b'' @ [CHR 0x00] @ ''c''\<rparr>, ''d'')
   \<and> USBRegisterHandler \<lparr>Project = ''a'', InstanceName = ''b'' @ [CHR 0x00] @ ''c''\<rparr> ''d''
        (2::nat) Map.empty
        (handlerKey \<lparr>Project = ''a'', InstanceName = ''b'' @ [CHR 0x00] @ ''c''\<rparr> ''d'') = Some 2
   \<and> USBUnregisterHandler \<lparr>Project = ''a'' @ [CHR 0x00] @ ''b'', InstanceName = ''c''\<rparr> ''d''
        (USBRegisterHandler \<lparr>Project = ''a'', InstanceName = ''b'' @ [CHR 0x00] @ ''c''\<rparr> ''d''
           (2::nat) Map.empty)
        (handlerKey \<lparr>Project = ''a'', InstanceName = ''b'' @ [CHR 0x00] @ ''c''\<rparr> ''d'') = None
   \<and> USBRegisterHandler \<lparr>Project = ''a'' @ [CHR 0x00] @ ''b'', InstanceName = ''c''\<rparr> ''d''
        (1::nat)
        (USBRegisterHandler \<lparr>Project = ''a'', InstanceName = ''b'' @ [CHR 0x00] @ ''c''\<rparr> ''d''
           (2::nat) Map.empty)
        (handlerKey \<lparr>Project = ''a'', InstanceName = ''b'' @ [CHR 0x00] @ ''c''\<rparr> ''d'') = Some 1"
  by (simp add: USBRegisterHandler_def USBUnregisterHandler_def handlerKey_def)

text \<open>
  C10. For every device configuration and every USB event, \<^verbatim>\<open>USBIsOurDevice\<close> returns
  true exactly when the value of "vendorid" is empty or equal to the vendor of the event,
  and the value of "productid" is empty or equal to the product of the event.
\<close>

theorem USBIsOurDevice_iff:
  "USBIsOurDevice cfg usb
     = ((index cfg ''vendorid'' = '''' \<or> index cfg ''vendorid'' = Vendor usb)
        \<and> (index cfg ''productid'' = '''' \<or> index cfg ''productid'' = Product usb))"
  by (simp add: USBIsOurDevice_def)

text \<open>
  A device that sets only "vendorid" takes an event of that vendor; one that also sets
  another "productid" does not.
\<close>

theorem USBIsOurDevice_iff_witness:
  "USBIsOurDevice [''vendorid'' \<mapsto> ''046d'']
     \<lparr>Action = ''add'', Vendor = ''046d'', Product = ''c52b'', Path = ''/dev/bus/usb/001/002'',
      Major = 189, Minor = 1, UeventParts = [], UeventLen = 0\<rparr>
   \<and> \<not> USBIsOurDevice [''vendorid'' \<mapsto> ''046d'', ''productid'' \<mapsto> ''0001'']
     \<lparr>Action = ''add'', Vendor = ''046d'', Product = ''c52b'', Path = ''/dev/bus/usb/001/002'',
      Major = 189, Minor = 1, UeventParts = [], UeventLen = 0\<rparr>"
  using USBIsOurDevice_iff [of "[''vendorid'' \<mapsto> ''046d'']"
      "\<lparr>Action = ''add'', Vendor = ''046d'', Product = ''c52b'', Path = ''/dev/bus/usb/001/002'',
      Major = 189, Minor = 1, UeventParts = [], UeventLen = 0\<rparr>"]
    USBIsOurDevice_iff [of "[''vendorid'' \<mapsto> ''046d'', ''productid'' \<mapsto> ''0001'']"
      "\<lparr>Action = ''add'', Vendor = ''046d'', Product = ''c52b'', Path = ''/dev/bus/usb/001/002'',
      Major = 189, Minor = 1, UeventParts = [], UeventLen = 0\<rparr>"]
  by (simp add: index_def)

end
